theory Spec2Isabelle
  imports Main "HOL-Library.Multiset"
begin

section \<open>JavaScript values\<close>

text \<open>
  The server (src/server.js) handles values that come out of \<open>JSON.parse\<close>: the request
  body, the tag object of the language model and the replies of the music service.
  They are modelled by one datatype. Scope of the model: numbers are integers (printed in
  decimal, which is what JavaScript prints below \<open>10^21\<close>), strings are ASCII, and an
  object is an association list that keeps one binding per key and whose keys do not
  shadow a builtin of \<open>Object.prototype\<close>.
\<close>

datatype jv =
    JUndefined
  | JNull
  | JBool bool
  | JNum int
  | JStr string
  | JArr "jv list"
  | JObj "(string \<times> jv) list"

datatype js_error = TypeError | SyntaxError | UpstreamError string

fun nullish :: "jv \<Rightarrow> bool" where
  "nullish JUndefined = True"
| "nullish JNull = True"
| "nullish _ = False"

text \<open>Truthiness, as \<open>!x\<close>, \<open>x || y\<close> and \<open>if (x)\<close> test it.\<close>

fun truthy :: "jv \<Rightarrow> bool" where
  "truthy JUndefined = False"
| "truthy JNull = False"
| "truthy (JBool b) = b"
| "truthy (JNum n) = (n \<noteq> 0)"
| "truthy (JStr s) = (s \<noteq> [])"
| "truthy (JArr xs) = True"
| "truthy (JObj kvs) = True"

text \<open>
  \<open>v.k\<close> on a value that is neither null nor undefined, for the field names the server
  reads (none of them is a builtin property of a string, a number, an array or an object).
\<close>

fun get_prop :: "jv \<Rightarrow> string \<Rightarrow> jv" where
  "get_prop (JObj kvs) k = (case map_of kvs k of Some v \<Rightarrow> v | None \<Rightarrow> JUndefined)"
| "get_prop _ k = JUndefined"

text \<open>\<open>v?.k\<close>: undefined when \<open>v\<close> is null or undefined.\<close>

definition optp :: "jv \<Rightarrow> string \<Rightarrow> jv" where
  "optp v k = (if nullish v then JUndefined else get_prop v k)"

text \<open>\<open>a || b\<close> where evaluating \<open>b\<close> cannot throw.\<close>

definition jor :: "jv \<Rightarrow> jv \<Rightarrow> jv" where
  "jor a b = (if truthy a then a else b)"

subsection \<open>Strings\<close>

fun join :: "string \<Rightarrow> string list \<Rightarrow> string" where
  "join sep [] = []"
| "join sep [x] = x"
| "join sep (x # y # ys) = x @ sep @ join sep (y # ys)"

definition digit_char :: "nat \<Rightarrow> char" where
  "digit_char d = char_of (48 + d)"

function nat_digits :: "nat \<Rightarrow> string" where
  "nat_digits n = (if n < 10 then [digit_char n] else nat_digits (n div 10) @ [digit_char (n mod 10)])"
  by pat_completeness auto
termination
  by (relation "measure id") auto

definition int_str :: "int \<Rightarrow> string" where
  "int_str n = (if n < 0 then CHR ''-'' # nat_digits (nat (- n)) else nat_digits (nat n))"

text \<open>
  The string a template literal \<open>${v}\<close> (and \<open>URLSearchParams\<close>) makes of a value. An array
  prints its elements joined by commas, a null or undefined element as the empty string.
\<close>

fun toStr :: "jv \<Rightarrow> string" where
  "toStr JUndefined = ''undefined''"
| "toStr JNull = ''null''"
| "toStr (JBool b) = (if b then ''true'' else ''false'')"
| "toStr (JNum n) = int_str n"
| "toStr (JStr s) = s"
| "toStr (JArr xs) = join '','' (map (\<lambda>x. if nullish x then [] else toStr x) xs)"
| "toStr (JObj kvs) = ''[object Object]''"

definition lower_char :: "char \<Rightarrow> char" where
  "lower_char c = (if 65 \<le> (of_char c :: nat) \<and> (of_char c :: nat) \<le> 90
                   then char_of ((of_char c :: nat) + 32) else c)"

definition toLowerCase :: "string \<Rightarrow> string" where
  "toLowerCase s = map lower_char s"

section \<open>Tracks\<close>

record track =
  name :: jv
  artist :: jv
  url :: jv
  image :: jv
  source :: string

subsection \<open>clean: deduplication by artist and name\<close>

definition dedup_key :: "track \<Rightarrow> string" where
  "dedup_key t = toLowerCase (toStr (artist t) @ ''|||'' @ toStr (name t))"

text \<open>The filter callback of \<open>clean\<close>, with the set \<open>seen\<close> passed along.\<close>

fun clean_filter :: "string set \<Rightarrow> track list \<Rightarrow> track list" where
  "clean_filter seen [] = []"
| "clean_filter seen (t # ts) =
     (let key = dedup_key t in
      if key \<in> seen then clean_filter seen ts
      else t # clean_filter (insert key seen) ts)"

definition clean :: "track list \<Rightarrow> track list" where
  "clean tracks = clean_filter {} tracks"

text \<open>The lower-cased (artist, name) pair of a track.\<close>

definition pair_key :: "track \<Rightarrow> string \<times> string" where
  "pair_key t = (toLowerCase (toStr (artist t)), toLowerCase (toStr (name t)))"

subsection \<open>normaliseTrack\<close>

text \<open>
  \<open>track.image.find((i) => i.size === sz)\<close> on an array: reading \<open>size\<close> of a null or
  undefined element throws; the first matching element is returned, else undefined.
\<close>

fun find_size :: "string \<Rightarrow> jv list \<Rightarrow> js_error + jv" where
  "find_size sz [] = Inr JUndefined"
| "find_size sz (i # rest) =
     (if nullish i then Inl TypeError
      else if get_prop i ''size'' = JStr sz then Inr i
      else find_size sz rest)"

text \<open>
  \<open>track.image?.find(...)?.["#text"]\<close>: undefined when the image field is null or
  undefined; a value other than an array has no \<open>find\<close> to call, which throws.
\<close>

definition image_text :: "string \<Rightarrow> jv \<Rightarrow> js_error + jv" where
  "image_text sz img =
     (if nullish img then Inr JUndefined
      else case img of
        JArr entries \<Rightarrow>
          (case find_size sz entries of
             Inl e \<Rightarrow> Inl e
           | Inr found \<Rightarrow> Inr (optp found ''#text''))
      | _ \<Rightarrow> Inl TypeError)"

text \<open>
  The object literal is evaluated field by field: \<open>track.name\<close> throws on a null or
  undefined record; the large image is looked up only when the medium text is falsy.
\<close>

definition normaliseTrack :: "jv \<Rightarrow> string \<Rightarrow> js_error + track" where
  "normaliseTrack t src =
     (if nullish t then Inl TypeError
      else
        let nm = get_prop t ''name'';
            ar = jor (optp (get_prop t ''artist'') ''name'')
                     (jor (get_prop t ''artist'') (JStr ''Unknown''));
            ur = jor (get_prop t ''url'') JNull
        in case image_text ''medium'' (get_prop t ''image'') of
             Inl e \<Rightarrow> Inl e
           | Inr m \<Rightarrow>
               if truthy m
               then Inr \<lparr>name = nm, artist = ar, url = ur, image = m, source = src\<rparr>
               else (case image_text ''large'' (get_prop t ''image'') of
                       Inl e \<Rightarrow> Inl e
                     | Inr l \<Rightarrow>
                         Inr \<lparr>name = nm, artist = ar, url = ur, image = jor l JNull,
                              source = src\<rparr>))"

section \<open>The music service\<close>

text \<open>
  A request to Last.fm: the API method, the tag or the artist, and the limit (the API key and
  the format are constants). A call either fails in \<open>fetch\<close> (a TypeError), or fails in
  \<open>res.json()\<close> (a SyntaxError), or yields a JSON value.
\<close>

record request =
  api_method :: string
  subject :: string
  limit :: nat

datatype response = NetworkError | BodyError | Body jv

text \<open>
  What the program cannot decide. Calls to the music service are numbered in the order
  they are issued; \<open>fetch\<close> gives the outcome of the i-th call and \<open>latency\<close> the time it
  takes, which fixes the order in which the callbacks of one batch run (calls that take
  the same time complete in the order they were issued). \<open>engine_sort\<close> is
  the result of the builtin \<open>Array.prototype.sort\<close> with the comparator
  \<open>() => Math.random() - 0.5\<close> in this run. \<open>generate\<close> is the language model and
  \<open>json_parse\<close> the builtin \<open>JSON.parse\<close> (None when it throws).
\<close>

datatype generation = GenError string | GenChunks "string option list"

record world =
  fetch :: "nat \<Rightarrow> request \<Rightarrow> response"
  latency :: "nat \<Rightarrow> nat"
  engine_sort :: "track list \<Rightarrow> track list"
  generate :: "string \<Rightarrow> generation"
  json_parse :: "string \<Rightarrow> jv option"


text \<open>
  \<open>lastfmTagTopTracks(tag, limit = 15)\<close> and \<open>lastfmArtistTopTracks(artist, limit = 8)\<close>:
  the request each one sends (None is an omitted limit, which takes the default), and the
  value each one returns from the reply (\<open>data?.tracks?.track || []\<close>).
\<close>

definition tag_request :: "jv \<Rightarrow> nat option \<Rightarrow> request" where
  "tag_request tag lim =
     \<lparr>api_method = ''tag.gettoptracks'', subject = toStr tag,
      limit = (case lim of None \<Rightarrow> 15 | Some n \<Rightarrow> n)\<rparr>"

definition artist_request :: "jv \<Rightarrow> nat option \<Rightarrow> request" where
  "artist_request a lim =
     \<lparr>api_method = ''artist.gettoptracks'', subject = toStr a,
      limit = (case lim of None \<Rightarrow> 8 | Some n \<Rightarrow> n)\<rparr>"

definition lastfmTagTopTracks :: "response \<Rightarrow> js_error + jv" where
  "lastfmTagTopTracks r =
     (case r of
        NetworkError \<Rightarrow> Inl TypeError
      | BodyError \<Rightarrow> Inl SyntaxError
      | Body data \<Rightarrow> Inr (jor (optp (optp data ''tracks'') ''track'') (JArr [])))"

definition lastfmArtistTopTracks :: "response \<Rightarrow> js_error + jv" where
  "lastfmArtistTopTracks r =
     (case r of
        NetworkError \<Rightarrow> Inl TypeError
      | BodyError \<Rightarrow> Inl SyntaxError
      | Body data \<Rightarrow> Inr (jor (optp (optp data ''toptracks'') ''track'') (JArr [])))"

text \<open>
  \<open>tracks.forEach((t) => allTracks.push(normaliseTrack(t, src)))\<close>: the tracks pushed
  before the first throw stay in \<open>allTracks\<close>.
\<close>

fun push_all :: "jv list \<Rightarrow> string \<Rightarrow> track list" where
  "push_all [] src = []"
| "push_all (t # ts) src =
     (case normaliseTrack t src of
        Inl e \<Rightarrow> []
      | Inr r \<Rightarrow> r # push_all ts src)"

text \<open>
  One async callback of a batch: what it appends to \<open>allTracks\<close>. A rejection (a failed
  call, or a value without \<open>forEach\<close>) is swallowed by \<open>Promise.allSettled\<close>.
\<close>

definition contribution :: "js_error + jv \<Rightarrow> string \<Rightarrow> track list" where
  "contribution res src =
     (case res of
        Inl e \<Rightarrow> []
      | Inr (JArr ts) \<Rightarrow> push_all ts src
      | Inr _ \<Rightarrow> [])"

text \<open>
  A job is a call with its number, its source label and the function that reads the
  reply. A batch appends the contributions in the order the calls complete.
\<close>

type_synonym job = "nat \<times> string \<times> request \<times> (response \<Rightarrow> js_error + jv)"

definition run_job :: "world \<Rightarrow> job \<Rightarrow> track list" where
  "run_job w j = (case j of (i, src, req, rd) \<Rightarrow> contribution (rd (fetch w i req)) src)"

definition run_batch :: "world \<Rightarrow> job list \<Rightarrow> track list" where
  "run_batch w jobs = concat (map (run_job w) (sort_key (\<lambda>j. latency w (fst j)) jobs))"

definition number_from :: "nat \<Rightarrow> (string \<times> request \<times> (response \<Rightarrow> js_error + jv)) list \<Rightarrow> job list" where
  "number_from n xs = zip [n ..< n + length xs] xs"

section \<open>buildPlaylist\<close>

text \<open>
  \<open>(tags.f || []).slice(0, n)\<close> followed by \<open>.map\<close>: only an array has both methods
  (a string has \<open>slice\<close> but no \<open>map\<close>).
\<close>

definition tag_list :: "jv \<Rightarrow> string \<Rightarrow> nat \<Rightarrow> js_error + jv list" where
  "tag_list tags f n =
     (if nullish tags then Inl TypeError
      else case jor (get_prop tags f) (JArr []) of
        JArr xs \<Rightarrow> Inr (take n xs)
      | _ \<Rightarrow> Inl TypeError)"

definition genre_jobs :: "nat \<Rightarrow> jv list \<Rightarrow> job list" where
  "genre_jobs n cs =
     number_from n (map (\<lambda>tag. (''genre:'' @ toStr tag, tag_request tag (Some 40), lastfmTagTopTracks)) cs)"

definition artist_jobs :: "nat \<Rightarrow> jv list \<Rightarrow> job list" where
  "artist_jobs n as =
     number_from n (map (\<lambda>a. (''artist:'' @ toStr a, artist_request a (Some 40), lastfmArtistTopTracks)) as)"

definition era_jobs :: "nat \<Rightarrow> jv list \<Rightarrow> job list" where
  "era_jobs n es =
     number_from n (map (\<lambda>d. (''era:'' @ toStr d, tag_request d (Some 40), lastfmTagTopTracks)) es)"

definition requests_of :: "job list \<Rightarrow> request list" where
  "requests_of jobs = map (\<lambda>j. fst (snd (snd j))) jobs"

text \<open>
  The three batches, one after the other. The result is \<open>allTracks\<close> (or the exception
  that ended the function) together with the requests sent so far.
\<close>

definition gather :: "world \<Rightarrow> jv \<Rightarrow> (js_error + track list) \<times> request list" where
  "gather w tags =
     (case tag_list tags ''culturalTags'' 8 of
        Inl e \<Rightarrow> (Inl e, [])
      | Inr cs \<Rightarrow>
          let j1 = genre_jobs 0 cs; t1 = run_batch w j1 in
          (case tag_list tags ''artists'' 20 of
             Inl e \<Rightarrow> (Inl e, requests_of j1)
           | Inr as \<Rightarrow>
               let j2 = artist_jobs (length j1) as; t2 = run_batch w j2 in
               (case tag_list tags ''eraTags'' 2 of
                  Inl e \<Rightarrow> (Inl e, requests_of (j1 @ j2))
                | Inr es \<Rightarrow>
                    let j3 = era_jobs (length j1 + length j2) es; t3 = run_batch w j3 in
                    (Inr (t1 @ t2 @ t3), requests_of (j1 @ j2 @ j3)))))"

definition buildPlaylist :: "world \<Rightarrow> jv \<Rightarrow> (js_error + track list) \<times> request list" where
  "buildPlaylist w tags =
     (case gather w tags of
        (Inl e, reqs) \<Rightarrow> (Inl e, reqs)
      | (Inr allTracks, reqs) \<Rightarrow>
          let unique = clean allTracks;
              shuffled = take 25 (engine_sort w unique)
          in (Inr shuffled, reqs))"

section \<open>Tag inference\<close>

text \<open>\<open>buildUserMessage\<close>: destructuring a null or undefined input throws.\<close>

definition buildUserMessage :: "jv \<Rightarrow> js_error + string" where
  "buildUserMessage input =
     (if nullish input then Inl TypeError
      else
        let birth_year = get_prop input ''birth_year'';
            hometown = get_prop input ''hometown'';
            language = get_prop input ''language'';
            culture = get_prop input ''culture'';
            life_period = get_prop input ''life_period'';
            resonant_songs = get_prop input ''resonant_songs'';
            lines0 =
              [''Birth Year: '' @ toStr (jor birth_year (JStr ''unknown'')),
               ''Where They Grew Up: '' @ toStr (jor hometown (JStr ''unknown'')),
               ''Language Spoken: '' @ toStr (jor language (JStr ''unknown''))];
            lines1 =
              (if truthy culture
               then lines0 @ [''Cultural Background: '' @ toStr culture] else lines0);
            lines2 =
              (if truthy life_period
               then lines1 @ [''Specific Life Period to Focus On: '' @ toStr life_period]
               else lines1);
            lines3 =
              lines2 @ [''Songs They Resonated With: ''
                        @ toStr (jor resonant_songs (JStr ''none provided''))]
        in Inr (join [CHR 0x0A] lines3))"

text \<open>The loop over the stream: \<open>raw += chunk.text ?? ""\<close>.\<close>

fun collect :: "string option list \<Rightarrow> string" where
  "collect [] = []"
| "collect (None # cs) = collect cs"
| "collect (Some s # cs) = s @ collect cs"

text \<open>Three backquotes, the code fence.\<close>

definition fence :: string where
  "fence = [CHR 0x60, CHR 0x60, CHR 0x60]"

definition is_letter :: "char \<Rightarrow> bool" where
  "is_letter c = ((65 \<le> (of_char c :: nat) \<and> (of_char c :: nat) \<le> 90)
                  \<or> (97 \<le> (of_char c :: nat) \<and> (of_char c :: nat) \<le> 122))"

definition is_space :: "char \<Rightarrow> bool" where
  "is_space c = (c \<in> set [CHR 0x09, CHR 0x0A, CHR 0x0B, CHR 0x0C, CHR 0x0D, CHR 0x20])"

text \<open>
  The first replace: a fence at the very start of the text, the letters after it and one
  newline. The pattern is anchored and has no multiline flag.
\<close>

definition strip_open :: "string \<Rightarrow> string" where
  "strip_open s =
     (if take 3 s = fence
      then (case dropWhile is_letter (drop 3 s) of
              [] \<Rightarrow> []
            | c # r \<Rightarrow> if c = CHR 0x0A then r else c # r)
      else s)"

text \<open>The second replace: a fence that ends the text (\<open>$\<close> is the end of the input).\<close>

definition strip_close :: "string \<Rightarrow> string" where
  "strip_close s =
     (if 3 \<le> length s \<and> drop (length s - 3) s = fence
      then take (length s - 3) s
      else s)"

definition trim :: "string \<Rightarrow> string" where
  "trim s = rev (dropWhile is_space (rev (dropWhile is_space s)))"

definition strip_fences :: "string \<Rightarrow> string" where
  "strip_fences raw = trim (strip_close (strip_open raw))"

text \<open>
  \<open>getTagsFromGemini\<close>: the result, and the prompts sent to the language model. A failure
  of the call or of the stream rejects; \<open>JSON.parse\<close> throws a SyntaxError.
\<close>

definition getTagsFromGemini :: "world \<Rightarrow> jv \<Rightarrow> (js_error + jv) \<times> string list" where
  "getTagsFromGemini w userInput =
     (case buildUserMessage userInput of
        Inl e \<Rightarrow> (Inl e, [])
      | Inr msg \<Rightarrow>
          (case generate w msg of
             GenError m \<Rightarrow> (Inl (UpstreamError m), [msg])
           | GenChunks chunks \<Rightarrow>
               (case json_parse w (strip_fences (collect chunks)) of
                  None \<Rightarrow> (Inl SyntaxError, [msg])
                | Some tags \<Rightarrow> (Inr tags, [msg]))))"

section \<open>The request handler\<close>

datatype call = GeminiCall string | LastfmCall request

datatype reply = Ok200 jv "track list" | Bad400 string | Fail500 js_error

text \<open>
  \<open>POST /api/generate-playlist\<close>: the reply and the calls made to the two services.
  Every exception inside the \<open>try\<close> becomes a 500.
\<close>

definition handler :: "world \<Rightarrow> jv \<Rightarrow> reply \<times> call list" where
  "handler w userInput =
     (if nullish userInput then (Fail500 TypeError, [])
      else if \<not> truthy (get_prop userInput ''birth_year'')
              \<and> \<not> truthy (get_prop userInput ''hometown'')
              \<and> \<not> truthy (get_prop userInput ''language'')
      then (Bad400 ''Please provide at least birth year, hometown, or language.'', [])
      else
        (case getTagsFromGemini w userInput of
           (Inl e, prompts) \<Rightarrow> (Fail500 e, map GeminiCall prompts)
         | (Inr tags, prompts) \<Rightarrow>
             (case buildPlaylist w tags of
                (Inl e, reqs) \<Rightarrow> (Fail500 e, map GeminiCall prompts @ map LastfmCall reqs)
              | (Inr playlist, reqs) \<Rightarrow>
                  (Ok200 tags playlist, map GeminiCall prompts @ map LastfmCall reqs))))"

text \<open>A key of the body is present when the object has it, whatever its value.\<close>

definition has_key :: "jv \<Rightarrow> string \<Rightarrow> bool" where
  "has_key v k = (case v of JObj kvs \<Rightarrow> k \<in> set (map fst kvs) | _ \<Rightarrow> False)"

section \<open>Predicates used in the statements\<close>

fun is_array :: "jv \<Rightarrow> bool" where
  "is_array (JArr xs) = True"
| "is_array _ = False"



text \<open>The entries of the image array of a raw record, and the first one of a size.\<close>

definition image_entries :: "jv \<Rightarrow> jv list" where
  "image_entries t = (case get_prop t ''image'' of JArr es \<Rightarrow> es | _ \<Rightarrow> [])"

definition first_of_size :: "string \<Rightarrow> jv \<Rightarrow> jv option" where
  "first_of_size sz t = find (\<lambda>i. get_prop i ''size'' = JStr sz) (image_entries t)"

text \<open>
  A raw record of the shape the service sends: not null, its image field absent (or null)
  or an array, and no null entry in that array.
\<close>

definition raw_record_ok :: "jv \<Rightarrow> bool" where
  "raw_record_ok t =
     (\<not> nullish t
      \<and> (nullish (get_prop t ''image'') \<or> is_array (get_prop t ''image''))
      \<and> (\<forall>i \<in> set (image_entries t). \<not> nullish i))"


section \<open>Example data\<close>

definition mk_track :: "string \<Rightarrow> string \<Rightarrow> string \<Rightarrow> track" where
  "mk_track a n s = \<lparr>name = JStr n, artist = JStr a, url = JNull, image = JNull, source = s\<rparr>"


text \<open>A music service that cannot be reached, and a language model that cannot either.\<close>

definition silent_world :: world where
  "silent_world =
     \<lparr>fetch = (\<lambda>i req. NetworkError), latency = (\<lambda>i. 0), engine_sort = (\<lambda>xs. xs),
      generate = (\<lambda>msg. GenError ''unreachable''), json_parse = (\<lambda>s. None)\<rparr>"






definition medium_entry :: jv where
  "medium_entry = JObj [(''#text'', JStr ''M.png''), (''size'', JStr ''medium'')]"

definition full_record :: jv where
  "full_record =
     JObj [(''name'', JStr ''Zombie''),
           (''artist'', JObj [(''name'', JStr ''Fela Kuti'')]),
           (''url'', JStr ''https://www.last.fm/music/Fela+Kuti/_/Zombie''),
           (''image'', JArr [JObj [(''#text'', JStr ''S.png''), (''size'', JStr ''small'')],
                            JObj [(''#text'', JStr ''L.png''), (''size'', JStr ''large'')],
                            medium_entry])]"

definition bare_record :: jv where
  "bare_record = JObj [(''name'', JStr ''Zombie'')]"

text \<open>
  A record whose medium entry is there with an empty text, as the service sends for a
  track without art in that size.
\<close>

definition empty_medium_record :: jv where
  "empty_medium_record =
     JObj [(''name'', JStr ''Zombie''),
           (''image'', JArr [JObj [(''#text'', JStr []), (''size'', JStr ''medium'')],
                            JObj [(''#text'', JStr ''L.png''), (''size'', JStr ''large'')]])]"


definition zero_form :: jv where
  "zero_form =
     JObj [(''birth_year'', JNum 0), (''hometown'', JStr []), (''language'', JStr [])]"


text \<open>A JSON payload between an opening fence with a language tag and a closing fence.\<close>

definition fenced_reply :: string where
  "fenced_reply = fence @ ''json'' @ [CHR 0x0A] @ ''{}'' @ [CHR 0x0A] @ fence"

section \<open>Deduplication\<close>





















text \<open>
  C10. Two tracks with distinct (artist, name) pairs, also after lower-casing, that have
  the same key because the separator occurs inside a field: \<open>clean\<close> keeps the first one
  only.
\<close>

theorem separator_collision:
  "pair_key (mk_track ''a|||b'' ''c'' ''genre:x'') \<noteq> pair_key (mk_track ''a'' ''b|||c'' ''genre:y'')
   \<and> dedup_key (mk_track ''a|||b'' ''c'' ''genre:x'') = dedup_key (mk_track ''a'' ''b|||c'' ''genre:y'')
   \<and> clean [mk_track ''a|||b'' ''c'' ''genre:x'', mk_track ''a'' ''b|||c'' ''genre:y'']
       = [mk_track ''a|||b'' ''c'' ''genre:x'']"
  by code_simp

section \<open>The size of the playlist\<close>







section \<open>Failed lookups\<close>













section \<open>The artist lookups\<close>










section \<open>Normalisation\<close>

lemma find_size_find:
  "\<forall>i \<in> set es. \<not> nullish i \<Longrightarrow>
   find_size sz es = Inr (case find (\<lambda>i. get_prop i ''size'' = JStr sz) es of
                            None \<Rightarrow> JUndefined | Some e \<Rightarrow> e)"
  by (induction es) auto

lemma find_not_nullish:
  "\<forall>i \<in> set es. \<not> nullish i \<Longrightarrow> find P es = Some e \<Longrightarrow> \<not> nullish e"
  by (induction es) (auto split: if_splits)

lemma image_text_ok:
  assumes "raw_record_ok t"
  shows "image_text sz (get_prop t ''image'')
         = Inr (case first_of_size sz t of None \<Rightarrow> JUndefined | Some e \<Rightarrow> get_prop e ''#text'')"
proof (cases "nullish (get_prop t ''image'')")
  case True
  then show ?thesis
    by (cases "get_prop t ''image''")
       (simp_all add: image_text_def first_of_size_def image_entries_def)
next
  case False
  then obtain es where es: "get_prop t ''image'' = JArr es"
    using assms by (cases "get_prop t ''image''") (simp_all add: raw_record_ok_def)
  have nn: "\<forall>i \<in> set es. \<not> nullish i"
    using assms es by (simp add: raw_record_ok_def image_entries_def)
  show ?thesis
  proof (cases "find (\<lambda>i. get_prop i ''size'' = JStr sz) es")
    case None
    then show ?thesis
      by (simp add: image_text_def es find_size_find [OF nn] first_of_size_def
          image_entries_def optp_def)
  next
    case (Some e)
    then have "\<not> nullish e" using find_not_nullish [OF nn] by blast
    then show ?thesis using Some
      by (simp add: image_text_def es find_size_find [OF nn] first_of_size_def
          image_entries_def optp_def)
  qed
qed

lemma no_key_undefined: "\<not> has_key t k \<Longrightarrow> get_prop t k = JUndefined"
  by (cases t) (force simp: has_key_def split: option.splits dest: map_of_SomeD)+

text \<open>
  C7, as stated, fails: a record with a medium entry and a large entry, the medium one
  with an empty text, gets the large image.
\<close>

theorem empty_medium_takes_large:
  "raw_record_ok empty_medium_record
   \<and> first_of_size ''medium'' empty_medium_record
       = Some (JObj [(''#text'', JStr []), (''size'', JStr ''medium'')])
   \<and> first_of_size ''large'' empty_medium_record
       = Some (JObj [(''#text'', JStr ''L.png''), (''size'', JStr ''large'')])
   \<and> map_sum id image (normaliseTrack empty_medium_record ''era:1960s'') = Inr (JStr ''L.png'')"
  by code_simp

text \<open>
  C7, amended. For every raw record of the shape the service sends, \<open>normaliseTrack\<close>
  returns a track; its artist is "Unknown" when the record has no artist field; its image
  is null when no image entry has size medium or large; when the first medium entry has
  a truthy (non-empty) text, the image is that text whatever the large entry holds; and
  when the text of the medium entry is falsy and the first large entry has a truthy
  text, the image is the large one.
\<close>

theorem normaliseTrack_fallbacks:
  assumes "raw_record_ok t"
  shows "\<exists>r. normaliseTrack t src = Inr r
     \<and> (\<not> has_key t ''artist'' \<longrightarrow> artist r = JStr ''Unknown'')
     \<and> ((\<forall>i \<in> set (image_entries t). get_prop i ''size'' \<noteq> JStr ''medium''
                                      \<and> get_prop i ''size'' \<noteq> JStr ''large'')
          \<longrightarrow> image r = JNull)
     \<and> (\<forall>m. first_of_size ''medium'' t = Some m \<and> truthy (get_prop m ''#text'')
          \<longrightarrow> image r = get_prop m ''#text'')
     \<and> (\<forall>m l. first_of_size ''medium'' t = Some m \<and> \<not> truthy (get_prop m ''#text'')
              \<and> first_of_size ''large'' t = Some l \<and> truthy (get_prop l ''#text'')
          \<longrightarrow> image r = get_prop l ''#text'')"
proof -
  have nn: "\<not> nullish t" using assms by (simp add: raw_record_ok_def)
  have none: "first_of_size sz t = None"
    if "\<forall>i \<in> set (image_entries t). get_prop i ''size'' \<noteq> JStr ''medium''
                                      \<and> get_prop i ''size'' \<noteq> JStr ''large''"
      and "sz = ''medium'' \<or> sz = ''large''" for sz
    using that by (auto simp: first_of_size_def find_None_iff)
  show ?thesis
  proof (cases "first_of_size ''medium'' t")
    case None
    show ?thesis
    proof (cases "first_of_size ''large'' t")
      case None
      with \<open>first_of_size ''medium'' t = None\<close> show ?thesis
        by (simp add: normaliseTrack_def nn image_text_ok [OF assms] Let_def jor_def optp_def
            no_key_undefined)
    next
      case (Some l)
      with None none show ?thesis
        by (auto simp: normaliseTrack_def nn image_text_ok [OF assms] Let_def jor_def optp_def
            no_key_undefined)
    qed
  next
    case (Some m)
    show ?thesis
    proof (cases "truthy (get_prop m ''#text'')")
      case True
      with Some none show ?thesis
        by (auto simp: normaliseTrack_def nn image_text_ok [OF assms] Let_def jor_def optp_def
            no_key_undefined)
    next
      case False
      with Some none show ?thesis
        by (cases "first_of_size ''large'' t")
           (auto simp: normaliseTrack_def nn image_text_ok [OF assms] Let_def jor_def optp_def
            no_key_undefined)
    qed
  qed
qed

text \<open>
  A record with a small, a large and a medium image gets the medium one; a record with a
  name only gets the artist "Unknown" and a null image.
\<close>

theorem normaliseTrack_fallbacks_witness:
  "raw_record_ok full_record
   \<and> first_of_size ''medium'' full_record = Some medium_entry
   \<and> truthy (get_prop medium_entry ''#text'')
   \<and> map_sum id image (normaliseTrack full_record ''genre:afrobeat'') = Inr (JStr ''M.png'')
   \<and> raw_record_ok bare_record
   \<and> \<not> has_key bare_record ''artist''
   \<and> map_sum id artist (normaliseTrack bare_record ''genre:afrobeat'') = Inr (JStr ''Unknown'')
   \<and> map_sum id image (normaliseTrack bare_record ''genre:afrobeat'') = Inr JNull"
proof -
  have ok: "raw_record_ok full_record" by code_simp
  have m: "first_of_size ''medium'' full_record = Some medium_entry" by code_simp
  have tr: "truthy (get_prop medium_entry ''#text'')" by code_simp
  have tx: "get_prop medium_entry ''#text'' = JStr ''M.png''" by code_simp
  obtain r where r: "normaliseTrack full_record ''genre:afrobeat'' = Inr r"
    and ri: "\<forall>m. first_of_size ''medium'' full_record = Some m \<and> truthy (get_prop m ''#text'')
               \<longrightarrow> image r = get_prop m ''#text''"
    using normaliseTrack_fallbacks [OF ok] by blast
  have "image r = get_prop medium_entry ''#text''" using ri m tr by simp
  then have i1: "map_sum id image (normaliseTrack full_record ''genre:afrobeat'') = Inr (JStr ''M.png'')"
    by (simp add: r tx)
  have ok2: "raw_record_ok bare_record" by code_simp
  have nk: "\<not> has_key bare_record ''artist''" by code_simp
  have ne: "image_entries bare_record = []" by code_simp
  obtain q where q: "normaliseTrack bare_record ''genre:afrobeat'' = Inr q"
    and qa: "\<not> has_key bare_record ''artist'' \<longrightarrow> artist q = JStr ''Unknown''"
    and qi: "(\<forall>i \<in> set (image_entries bare_record). get_prop i ''size'' \<noteq> JStr ''medium''
                \<and> get_prop i ''size'' \<noteq> JStr ''large'') \<longrightarrow> image q = JNull"
    using normaliseTrack_fallbacks [OF ok2] by blast
  have a2: "map_sum id artist (normaliseTrack bare_record ''genre:afrobeat'') = Inr (JStr ''Unknown'')"
    using qa nk by (simp add: q)
  have i2: "map_sum id image (normaliseTrack bare_record ''genre:afrobeat'') = Inr JNull"
    using qi by (simp add: q ne)
  show ?thesis using ok m tr i1 ok2 nk a2 i2 by (intro conjI)
qed

section \<open>Validation of the request\<close>




text \<open>
  C9. For every request body that has the three fields birth_year, hometown and language,
  each with a falsy value, the handler answers with the 400 and makes no call.
\<close>

theorem falsy_fields_rejected:
  assumes "has_key body ''birth_year''" and "has_key body ''hometown''"
    and "has_key body ''language''"
    and "\<not> truthy (get_prop body ''birth_year'')" and "\<not> truthy (get_prop body ''hometown'')"
    and "\<not> truthy (get_prop body ''language'')"
  shows "handler w body
         = (Bad400 ''Please provide at least birth year, hometown, or language.'', [])"
proof -
  have "\<not> nullish body" using assms(1) by (cases body) (simp_all add: has_key_def)
  then show ?thesis using assms(4-6) by (simp add: handler_def)
qed

text \<open>The birth year 0 with an empty home town and an empty language.\<close>

theorem falsy_fields_rejected_witness:
  "has_key zero_form ''birth_year'' \<and> has_key zero_form ''hometown''
   \<and> has_key zero_form ''language''
   \<and> \<not> truthy (get_prop zero_form ''birth_year'') \<and> \<not> truthy (get_prop zero_form ''hometown'')
   \<and> \<not> truthy (get_prop zero_form ''language'')
   \<and> handler silent_world zero_form
       = (Bad400 ''Please provide at least birth year, hometown, or language.'', [])"
proof -
  have k: "has_key zero_form ''birth_year''" "has_key zero_form ''hometown''"
    "has_key zero_form ''language''"
    by (simp_all add: zero_form_def has_key_def)
  have f: "\<not> truthy (get_prop zero_form ''birth_year'')" "\<not> truthy (get_prop zero_form ''hometown'')"
    "\<not> truthy (get_prop zero_form ''language'')"
    by (simp_all add: zero_form_def)
  show ?thesis using k f falsy_fields_rejected [OF k f, of silent_world] by (intro conjI)
qed

section \<open>Code fences in the reply of the language model\<close>

text \<open>
  C8. A fenced payload that ends right after the closing fence is stripped to the
  payload. The same reply followed by a newline keeps its closing fence: the second
  replace looks for the fence at the end of the input and runs before the trim, so the
  text handed to \<open>JSON.parse\<close> is the payload, a newline and the fence.
\<close>

theorem closing_fence_survives:
  "strip_fences (collect [Some fenced_reply]) = ''{}''
   \<and> strip_fences (collect [Some (fenced_reply @ [CHR 0x0A])]) = ''{}'' @ [CHR 0x0A] @ fence
   \<and> strip_fences (collect [Some fence, None, Some ''json'', Some [CHR 0x0A], Some ''{}'',
                             Some [CHR 0x0A], Some fence, Some [CHR 0x0A]])
       = ''{}'' @ [CHR 0x0A] @ fence"
  by code_simp

end
